theory Spec2Isabelle
  imports Complex_Main
begin

section \<open>Python values and exceptions\<close>

text \<open>
  The request core passes around JSON-like Python values: response payloads, the
  \<^verbatim>\<open>details\<close> dictionary of an \<^verbatim>\<open>SPAPIError\<close>, the token endpoint's answer. A dictionary is
  an association list in insertion order. JSON numbers are integers here; floating-point
  payload numbers are outside the model.
\<close>

datatype pyval =
    PyNone
  | PyBool bool
  | PyInt int
  | PyStr string
  | PyBytes string
  | PyList "pyval list"
  | PyDict "(string \<times> pyval) list"

text \<open>Python truthiness (\<^verbatim>\<open>if x:\<close>, \<^verbatim>\<open>not x\<close>, \<^verbatim>\<open>x or y\<close>).\<close>

fun truthy :: "pyval \<Rightarrow> bool" where
  "truthy PyNone = False"
| "truthy (PyBool b) = b"
| "truthy (PyInt i) = (i \<noteq> 0)"
| "truthy (PyStr s) = (s \<noteq> [])"
| "truthy (PyBytes s) = (s \<noteq> [])"
| "truthy (PyList xs) = (xs \<noteq> [])"
| "truthy (PyDict d) = (d \<noteq> [])"

text \<open>
  The integer a value stands for in \<^verbatim>\<open>==\<close> and \<^verbatim>\<open><=\<close> against an \<^verbatim>\<open>int\<close>: \<^verbatim>\<open>bool\<close> is
  a subclass of \<^verbatim>\<open>int\<close>; every other type is not a number.
\<close>

fun py_int_of :: "pyval \<Rightarrow> int option" where
  "py_int_of (PyInt i) = Some i"
| "py_int_of (PyBool b) = Some (if b then 1 else 0)"
| "py_int_of _ = None"

text \<open>\<^verbatim>\<open>d.get(k)\<close>: the value stored under \<^verbatim>\<open>k\<close>, \<^verbatim>\<open>None\<close> when the key is missing.\<close>

definition dict_get :: "(string \<times> pyval) list \<Rightarrow> string \<Rightarrow> pyval" where
  "dict_get d k = (case map_of d k of None \<Rightarrow> PyNone | Some v \<Rightarrow> v)"

text \<open>\<^verbatim>\<open>d[k] = v\<close>: replaces the value in place, or appends a new key.\<close>

fun dict_set :: "(string \<times> 'v) list \<Rightarrow> string \<Rightarrow> 'v \<Rightarrow> (string \<times> 'v) list" where
  "dict_set [] k v = [(k, v)]"
| "dict_set ((k', v') # d) k v = (if k' = k then (k, v) # d else (k', v') # dict_set d k v)"

text \<open>\<^verbatim>\<open>d.update(e)\<close>.\<close>

fun dict_update :: "(string \<times> 'v) list \<Rightarrow> (string \<times> 'v) list \<Rightarrow> (string \<times> 'v) list" where
  "dict_update d [] = d"
| "dict_update d ((k, v) # e) = dict_update (dict_set d k v) e"

text \<open>
  The exceptions of the core. \<^verbatim>\<open>SPAPIError(message, details)\<close> stores
  \<^verbatim>\<open>details or {}\<close>; \<open>PyException\<close> is a plain \<^verbatim>\<open>Exception(message)\<close>.
\<close>

datatype exn =
    SPAPIError string "(string \<times> pyval) list"
  | ConnectionError string
  | TimeoutError string
  | TypeError string
  | ZeroDivisionError string
  | KeyError string
  | OverflowError string
  | PyException string

text \<open>A string between single quotes, as Python prints a name inside a message.\<close>

definition quoted :: "string \<Rightarrow> string" where
  "quoted s = CHR 0x27 # s @ [CHR 0x27]"

text \<open>Decimal rendering of an integer, as an f-string does it.\<close>

definition digit_char :: "nat \<Rightarrow> char" where
  "digit_char d = ''0123456789'' ! d"

function str_nat :: "nat \<Rightarrow> string" where
  "str_nat n = (if n < 10 then [digit_char n] else str_nat (n div 10) @ [digit_char (n mod 10)])"
  by pat_completeness auto
termination
  by (relation "measure id") auto

declare str_nat.simps [simp del]

definition str_int :: "int \<Rightarrow> string" where
  "str_int i = (if i < 0 then CHR ''-'' # str_nat (nat (- i)) else str_nat (nat i))"

section \<open>RetryPolicy: \<^verbatim>\<open>client/error_handler.py\<close>\<close>

text \<open>
  \<^verbatim>\<open>SPAPIErrorHandler._should_retry\<close>. The source compares
  \<^verbatim>\<open>400 <= status_code < 500\<close> with whatever \<^verbatim>\<open>details.get('status_code')\<close> returned; against
  a value that is not a number Python raises \<^verbatim>\<open>TypeError\<close>, which is the \<open>Inl\<close> result.
\<close>

definition retry_statuses :: "int list" where
  "retry_statuses = [429, 500, 502, 503, 504]"

definition status_in :: "pyval \<Rightarrow> int list \<Rightarrow> bool" where
  "status_in v xs = (case py_int_of v of None \<Rightarrow> False | Some i \<Rightarrow> i \<in> set xs)"

definition status_eq :: "pyval \<Rightarrow> int \<Rightarrow> bool" where
  "status_eq v n = (case py_int_of v of None \<Rightarrow> False | Some i \<Rightarrow> i = n)"

text \<open>The value stored under \<^verbatim>\<open>status_code\<close> in the details of an \<^verbatim>\<open>SPAPIError\<close>, if any.\<close>

definition status_of :: "exn \<Rightarrow> pyval option" where
  "status_of e = (case e of SPAPIError msg details \<Rightarrow> map_of details ''status_code'' | _ \<Rightarrow> None)"

definition is_network_error :: "exn \<Rightarrow> bool" where
  "is_network_error e = (case e of ConnectionError _ \<Rightarrow> True | TimeoutError _ \<Rightarrow> True | _ \<Rightarrow> False)"

text \<open>The name Python prints for the type of a value.\<close>

fun type_name :: "pyval \<Rightarrow> string" where
  "type_name PyNone = ''NoneType''"
| "type_name (PyBool _) = ''bool''"
| "type_name (PyInt _) = ''int''"
| "type_name (PyStr _) = ''str''"
| "type_name (PyBytes _) = ''bytes''"
| "type_name (PyList _) = ''list''"
| "type_name (PyDict _) = ''dict''"

text \<open>The message of the \<^verbatim>\<open>TypeError\<close> of \<^verbatim>\<open>400 <= v\<close> for a \<open>v\<close> that is not a number.\<close>

definition le_not_supported :: "pyval \<Rightarrow> string" where
  "le_not_supported v =
     quoted ''<='' @ '' not supported between instances of '' @ quoted ''int'' @ '' and '' @
     quoted (type_name v)"

text \<open>
  The block guarded by \<^verbatim>\<open>isinstance(error, SPAPIError)\<close> and \<^verbatim>\<open>error.details\<close>: \<open>Some\<close> is
  a \<^verbatim>\<open>return\<close> (or the raise), \<open>None\<close> is falling out of the block.
\<close>

definition status_verdict :: "(string \<times> pyval) list \<Rightarrow> (exn + bool) option" where
  "status_verdict details =
     (let status_code = dict_get details ''status_code'' in
      if status_in status_code retry_statuses then Some (Inr True)
      else if status_eq status_code 401 then Some (Inr True)
      else (case py_int_of status_code of
              None \<Rightarrow>
                Some (Inl (TypeError (le_not_supported status_code)))
            | Some i \<Rightarrow> if 400 \<le> i \<and> i < 500 then Some (Inr False) else None))"

definition should_retry :: "exn \<Rightarrow> exn + bool" where
  "should_retry error =
     (case (case error of
              SPAPIError msg details \<Rightarrow> if details \<noteq> [] then status_verdict details else None
            | _ \<Rightarrow> None) of
        Some verdict \<Rightarrow> verdict
      | None \<Rightarrow> if is_network_error error then Inr True else Inr False)"

text \<open>
  \<^verbatim>\<open>_calculate_backoff\<close>: \<^verbatim>\<open>min(60, 2 ** attempt * jitter)\<close>, the jitter being the sample
  \<^verbatim>\<open>random.uniform(0.5, 1.5)\<close> drew. \<^verbatim>\<open>2 ** attempt\<close> is an \<^verbatim>\<open>int\<close>, converted to a float for the
  product: from \<^verbatim>\<open>2 ** 1024\<close> on the conversion raises \<^verbatim>\<open>OverflowError\<close>. Below that the product
  with a power of two is exact in binary64 and stays finite, so the real number is the float.
\<close>

definition calculate_backoff :: "nat \<Rightarrow> real \<Rightarrow> exn + real" where
  "calculate_backoff attempt jitter =
     (if attempt \<ge> 1024 then Inl (OverflowError ''int too large to convert to float'')
      else Inr (min 60 (2 ^ attempt * jitter)))"

text \<open>
  \<^verbatim>\<open>execute_with_retry\<close>. The operation is given by the outcome of each of its calls, by
  call index (it is called once per pass of the loop); \<open>jitter k\<close> is the sample drawn in
  pass \<open>k\<close>. The result records what the caller gets, how many times the operation was
  called and the sleeps in between. An exception raised inside the \<^verbatim>\<open>except\<close> block, by the
  classifier or by the backoff, is what the caller gets. A loop that ends without returning
  (an empty range) returns \<^verbatim>\<open>None\<close>.
\<close>

record retry_result =
  outcome :: "exn + pyval"
  attempts :: nat
  sleeps :: "real list"

definition retried :: "real \<Rightarrow> retry_result \<Rightarrow> retry_result" where
  "retried t r = r\<lparr>attempts := Suc (attempts r), sleeps := t # sleeps r\<rparr>"

fun retry_loop :: "int \<Rightarrow> (nat \<Rightarrow> exn + pyval) \<Rightarrow> (nat \<Rightarrow> real) \<Rightarrow> nat list \<Rightarrow> retry_result" where
  "retry_loop max_retries func jitter [] = \<lparr>outcome = Inr PyNone, attempts = 0, sleeps = []\<rparr>"
| "retry_loop max_retries func jitter (attempt # rest) =
     (case func attempt of
        Inr v \<Rightarrow> \<lparr>outcome = Inr v, attempts = 1, sleeps = []\<rparr>
      | Inl e \<Rightarrow>
          if int attempt = max_retries then \<lparr>outcome = Inl e, attempts = 1, sleeps = []\<rparr>
          else (case should_retry e of
                  Inl raised \<Rightarrow> \<lparr>outcome = Inl raised, attempts = 1, sleeps = []\<rparr>
                | Inr False \<Rightarrow> \<lparr>outcome = Inl e, attempts = 1, sleeps = []\<rparr>
                | Inr True \<Rightarrow>
                    (case calculate_backoff attempt (jitter attempt) of
                       Inl raised \<Rightarrow> \<lparr>outcome = Inl raised, attempts = 1, sleeps = []\<rparr>
                     | Inr backoff_time \<Rightarrow>
                         retried backoff_time (retry_loop max_retries func jitter rest))))"

definition execute_with_retry :: "int \<Rightarrow> (nat \<Rightarrow> exn + pyval) \<Rightarrow> (nat \<Rightarrow> real) \<Rightarrow> retry_result" where
  "execute_with_retry max_retries func jitter =
     retry_loop max_retries func jitter [0..<nat (max_retries + 1)]"

section \<open>RequestPipeline, the transport call: \<^verbatim>\<open>SPAPIClient._execute_request\<close>\<close>

text \<open>
  The signed request (botocore's \<^verbatim>\<open>AWSRequest\<close>) and what the transport answers: a response,
  or a \<^verbatim>\<open>requests.RequestException\<close> with its message. \<open>json\<close> is what \<^verbatim>\<open>response.json()\<close>
  returns, \<open>None\<close> when it raises \<^verbatim>\<open>JSONDecodeError\<close>.
\<close>

record aws_request =
  req_method :: string
  req_url :: string
  req_headers :: "(string \<times> pyval) list"
  req_body :: "string option"

record http_response =
  status_code :: int
  body_text :: string
  json :: "pyval option"

datatype transport = RequestException string | Response http_response

definition success_marker :: pyval where
  "success_marker = PyDict [(''success'', PyBool True)]"

definition response_data :: "http_response \<Rightarrow> pyval" where
  "response_data r = (case json r of Some j \<Rightarrow> j | None \<Rightarrow> PyDict [(''raw_content'', PyStr (body_text r))])"

definition error_info :: "aws_request \<Rightarrow> http_response \<Rightarrow> (string \<times> pyval) list" where
  "error_info aws_req r =
     [(''status_code'', PyInt (status_code r)),
      (''response'', response_data r),
      (''url'', PyStr (req_url aws_req)),
      (''method'', PyStr (req_method aws_req))]"

definition execute_request :: "aws_request \<Rightarrow> transport \<Rightarrow> exn + pyval" where
  "execute_request aws_req t =
     (case t of
        RequestException e \<Rightarrow>
          Inl (SPAPIError (''Request failed: '' @ e) [(''original_error'', PyStr e)])
      | Response r \<Rightarrow>
          if status_code r = 204 then Inr success_marker
          else if status_code r \<ge> 400 then
            Inl (SPAPIError (''API error '' @ str_int (status_code r)) (error_info aws_req r))
          else Inr (response_data r))"

section \<open>RateLimiter: \<^verbatim>\<open>client/rate_limiter.py\<close>\<close>

text \<open>
  Token counts, rates and clock readings are Python floats, modelled as reals. A bucket is
  the dictionary \<^verbatim>\<open>{'tokens', 'max_tokens', 'refill_rate', 'last_refill'}\<close>.
\<close>

record bucket =
  tokens :: real
  max_tokens :: real
  refill_rate :: real
  last_refill :: real

text \<open>\<^verbatim>\<open>RATE_LIMITS\<close> of \<^verbatim>\<open>config.py\<close>: endpoint, rate (requests per second), burst.\<close>

definition RATE_LIMITS :: "(string \<times> real \<times> real) list" where
  "RATE_LIMITS =
     [(''orders'', 167 / 10000, 20),
      (''inventory'', 2, 30),
      (''reports'', 222 / 10000, 10),
      (''feeds'', 222 / 10000, 10),
      (''catalog'', 5, 15),
      (''listings'', 5, 10),
      (''finances'', 1 / 2, 30),
      (''tokens'', 167 / 10000, 15)]"

definition new_bucket :: "real \<Rightarrow> real \<Rightarrow> real \<Rightarrow> bucket" where
  "new_bucket burst rate now =
     \<lparr>tokens = burst, max_tokens = burst, refill_rate = rate, last_refill = now\<rparr>"

record rate_limiter =
  buffer :: real
  buckets :: "(string \<times> bucket) list"
  last_request_times :: "(string \<times> real) list"

text \<open>\<^verbatim>\<open>RateLimiter.__init__\<close>; \<open>created endpoint\<close> is the clock reading taken for that bucket.\<close>

definition rate_limiter_init :: "real \<Rightarrow> (string \<Rightarrow> real) \<Rightarrow> rate_limiter" where
  "rate_limiter_init buf created =
     \<lparr>buffer = buf,
      buckets = map (\<lambda>(endpoint, rate, burst). (endpoint, new_bucket burst rate (created endpoint)))
                  RATE_LIMITS,
      last_request_times = []\<rparr>"

text \<open>The refill at the head of the loop body of \<^verbatim>\<open>acquire\<close>, at the clock reading \<open>now\<close>.\<close>

definition refill :: "bucket \<Rightarrow> real \<Rightarrow> bucket" where
  "refill b now =
     (let time_passed = now - last_refill b;
          tokens_to_add = time_passed * refill_rate b
      in b\<lparr>tokens := min (max_tokens b) (tokens b + tokens_to_add), last_refill := now\<rparr>)"

text \<open>
  One pass of the loop body: refill, then either consume a token and leave the loop, or
  compute the wait and sleep. Dividing by a zero rate raises \<^verbatim>\<open>ZeroDivisionError\<close>. Nothing
  else runs on the bucket between the refill and the decrement: the pass has no \<^verbatim>\<open>await\<close>
  before the sleep, so concurrent callers interleave whole passes.
\<close>

datatype pass_result = Acquired real | Sleep real | Failed exn

definition acquire_pass :: "real \<Rightarrow> bucket \<Rightarrow> real \<Rightarrow> bucket \<times> pass_result" where
  "acquire_pass buf b now =
     (let b1 = refill b now in
      if tokens b1 \<ge> 1 then (b1\<lparr>tokens := tokens b1 - 1\<rparr>, Acquired now)
      else if refill_rate b1 = 0 then (b1, Failed (ZeroDivisionError ''float division by zero''))
      else (b1, Sleep ((1 - tokens b1) / refill_rate b1 + buf)))"

text \<open>
  The loop of one caller. \<open>clock\<close> holds the readings of \<^verbatim>\<open>time.time()\<close> of its passes; when
  the readings run out the caller is still suspended (\<open>Waiting\<close>).
\<close>

datatype acquire_result = Granted real | Waiting | Raised exn

record acquisition =
  bucket_after :: bucket
  result :: acquire_result
  waits :: "real list"

fun acquire_loop :: "real \<Rightarrow> bucket \<Rightarrow> real list \<Rightarrow> acquisition" where
  "acquire_loop buf b [] = \<lparr>bucket_after = b, result = Waiting, waits = []\<rparr>"
| "acquire_loop buf b (now # clock) =
     (case acquire_pass buf b now of
        (b', Acquired t) \<Rightarrow> \<lparr>bucket_after = b', result = Granted t, waits = []\<rparr>
      | (b', Failed e) \<Rightarrow> \<lparr>bucket_after = b', result = Raised e, waits = []\<rparr>
      | (b', Sleep w) \<Rightarrow>
          (let a = acquire_loop buf b' clock in a\<lparr>waits := w # waits a\<rparr>))"

text \<open>
  \<^verbatim>\<open>RateLimiter.acquire\<close>: an unknown endpoint uses the bucket \<^verbatim>\<open>default\<close>, created at the
  reading \<open>created\<close> on first use.
\<close>

definition acquire :: "rate_limiter \<Rightarrow> string \<Rightarrow> real \<Rightarrow> real list \<Rightarrow> rate_limiter \<times> acquire_result" where
  "acquire rl endpoint created clock =
     (let known = (map_of (buckets rl) endpoint \<noteq> None);
          endpoint' = (if known then endpoint else ''default'');
          bs = (if known \<or> map_of (buckets rl) ''default'' \<noteq> None then buckets rl
                else dict_set (buckets rl) ''default'' (new_bucket 10 1 created))
      in case map_of bs endpoint' of
           None \<Rightarrow> (rl\<lparr>buckets := bs\<rparr>, Raised (KeyError endpoint'))
         | Some b \<Rightarrow>
             (let a = acquire_loop (buffer rl) b clock;
                  rl' = rl\<lparr>buckets := dict_set bs endpoint' (bucket_after a)\<rparr>
              in case result a of
                   Granted now \<Rightarrow>
                     (rl'\<lparr>last_request_times := dict_set (last_request_times rl) endpoint' now\<rparr>,
                      Granted now)
                 | r \<Rightarrow> (rl', r)))"


text \<open>The invariant of a bucket: the token count is within its bounds and the rate is not negative.\<close>

definition bucket_ok :: "bucket \<Rightarrow> bool" where
  "bucket_ok b = (0 \<le> tokens b \<and> tokens b \<le> max_tokens b \<and> 0 \<le> refill_rate b)"

section \<open>TokenAuthenticator: \<^verbatim>\<open>auth/lwa_auth.py\<close>\<close>

text \<open>
  A \<^verbatim>\<open>datetime\<close> is its count of microseconds since \<^verbatim>\<open>datetime.min\<close> (0001-01-01T00:00:00),
  up to \<^verbatim>\<open>datetime.max\<close> (9999-12-31T23:59:59.999999); a \<^verbatim>\<open>timedelta\<close> is a count of
  microseconds. The cached token is whatever the token endpoint's JSON held under
  \<^verbatim>\<open>access_token\<close>, \<^verbatim>\<open>None\<close> before the first exchange.
\<close>

type_synonym datetime = int

definition datetime_max :: datetime where
  "datetime_max = 315537897599999999"

definition is_datetime :: "int \<Rightarrow> bool" where
  "is_datetime t = (0 \<le> t \<and> t \<le> datetime_max)"

definition seconds :: "int \<Rightarrow> int" where
  "seconds n = n * 1000000"

definition minutes :: "int \<Rightarrow> int" where
  "minutes n = seconds (60 * n)"

text \<open>
  \<^verbatim>\<open>timedelta(seconds=n)\<close> for an integer \<open>n\<close>: \<^verbatim>\<open>OverflowError\<close> when the whole days are
  more than 999999999 in magnitude.
\<close>

definition timedelta_seconds :: "int \<Rightarrow> exn + int" where
  "timedelta_seconds n =
     (let days = n div 86400 in
      if days < - 999999999 \<or> 999999999 < days then
        Inl (OverflowError
          (if - 2147483648 \<le> days \<and> days \<le> 2147483647
           then ''days='' @ str_int days @ ''; must have magnitude <= 999999999''
           else ''Python int too large to convert to C int''))
      else Inr (seconds n))"

text \<open>\<^verbatim>\<open>datetime + timedelta\<close>: \<^verbatim>\<open>OverflowError\<close> when the sum is not a \<^verbatim>\<open>datetime\<close>.\<close>

definition datetime_add :: "datetime \<Rightarrow> int \<Rightarrow> exn + datetime" where
  "datetime_add t d =
     (if is_datetime (t + d) then Inr (t + d) else Inl (OverflowError ''date value out of range''))"

record lwa_state =
  access_token :: pyval
  token_expires_at :: "datetime option"

definition lwa_init :: lwa_state where
  "lwa_init = \<lparr>access_token = PyNone, token_expires_at = None\<rparr>"

text \<open>
  \<^verbatim>\<open>_is_token_expired\<close> at the clock reading \<open>now\<close> (\<^verbatim>\<open>datetime.utcnow()\<close>). The sum
  \<^verbatim>\<open>utcnow() + buffer_time\<close> is only computed for a cached token with an expiry, and raises
  when it is past \<^verbatim>\<open>datetime.max\<close>.
\<close>

definition is_token_expired :: "lwa_state \<Rightarrow> datetime \<Rightarrow> exn + bool" where
  "is_token_expired st now =
     (case (truthy (access_token st), token_expires_at st) of
        (True, Some expires_at) \<Rightarrow>
          (let buffer_time = minutes 5 in
           case datetime_add now buffer_time of
             Inl e \<Rightarrow> Inl e
           | Inr t \<Rightarrow> Inr (t \<ge> expires_at))
      | _ \<Rightarrow> Inr True)"

text \<open>
  What the POST to the token endpoint comes to, up to \<^verbatim>\<open>response.json()\<close>: a
  \<^verbatim>\<open>requests.RequestException\<close> (no connection, a timeout, the \<^verbatim>\<open>HTTPError\<close> of
  \<^verbatim>\<open>raise_for_status\<close>, a body that is not JSON), or the decoded body.
\<close>

datatype token_exchange = ExchangeFailed string | ExchangeJson pyval

text \<open>The \<^verbatim>\<open>TypeError\<close> of \<^verbatim>\<open>v["access_token"]\<close> for a \<open>v\<close> that is not a dictionary.\<close>

definition not_subscriptable :: "pyval \<Rightarrow> string" where
  "not_subscriptable v =
     (case v of
        PyList _ \<Rightarrow> ''list indices must be integers or slices, not str''
      | PyBytes _ \<Rightarrow> ''byte indices must be integers or slices, not str''
      | PyStr _ \<Rightarrow> ''string indices must be integers, not '' @ quoted ''str''
      | _ \<Rightarrow> quoted (type_name v) @ '' object is not subscriptable'')"

text \<open>
  \<^verbatim>\<open>_refresh_access_token\<close>, with the reading \<open>now\<close> of \<^verbatim>\<open>datetime.utcnow()\<close> taken after the
  exchange. The result is the exception raised, if any, and the state left behind. Only
  \<^verbatim>\<open>RequestException\<close> and \<^verbatim>\<open>KeyError\<close> are caught and wrapped; a \<^verbatim>\<open>TypeError\<close> (a body that
  is not an object, an \<^verbatim>\<open>expires_in\<close> that is not a number) and an \<^verbatim>\<open>OverflowError\<close> (an
  \<^verbatim>\<open>expires_in\<close> out of range) propagate as they are, after the token has been stored.
\<close>

definition refresh_access_token :: "lwa_state \<Rightarrow> datetime \<Rightarrow> token_exchange \<Rightarrow> exn option \<times> lwa_state" where
  "refresh_access_token st now ex =
     (case ex of
        ExchangeFailed e \<Rightarrow> (Some (PyException (''LWA token refresh failed: '' @ e)), st)
      | ExchangeJson token_data \<Rightarrow>
          (case token_data of
             PyDict d \<Rightarrow>
               (case map_of d ''access_token'' of
                  None \<Rightarrow>
                    (Some (PyException (''Invalid LWA token response: '' @ quoted ''access_token'')), st)
                | Some tok \<Rightarrow>
                    (let st1 = st\<lparr>access_token := tok\<rparr>;
                         expires_in = (case map_of d ''expires_in'' of None \<Rightarrow> PyInt 3600 | Some v \<Rightarrow> v)
                     in case py_int_of expires_in of
                          None \<Rightarrow>
                            (Some (TypeError (''unsupported type for timedelta seconds component: '' @
                               type_name expires_in)), st1)
                        | Some n \<Rightarrow>
                            (case timedelta_seconds n of
                               Inl e \<Rightarrow> (Some e, st1)
                             | Inr delta \<Rightarrow>
                                 (case datetime_add now delta of
                                    Inl e \<Rightarrow> (Some e, st1)
                                  | Inr expires_at \<Rightarrow>
                                      (None, st1\<lparr>token_expires_at := Some expires_at\<rparr>)))))
           | _ \<Rightarrow> (Some (TypeError (not_subscriptable token_data)), st)))"

text \<open>
  \<^verbatim>\<open>get_access_token\<close>. \<open>now\<close> is the reading of the expiry check, \<open>now_refresh\<close> the one the
  refresh takes, \<open>ex\<close> what the token endpoint answers if it is asked. \<open>refreshed\<close> tells
  whether \<^verbatim>\<open>_refresh_access_token\<close> was called.
\<close>

record token_call =
  returned :: "exn + pyval"
  state_after :: lwa_state
  refreshed :: bool

definition get_access_token :: "lwa_state \<Rightarrow> datetime \<Rightarrow> datetime \<Rightarrow> token_exchange \<Rightarrow> bool \<Rightarrow> token_call" where
  "get_access_token st now now_refresh ex force_refresh =
     (case is_token_expired st now of
        Inl e \<Rightarrow> \<lparr>returned = Inl e, state_after = st, refreshed = False\<rparr>
      | Inr expired \<Rightarrow>
          (let (raised, st', called) =
                 (if expired \<or> force_refresh then
                    (case refresh_access_token st now_refresh ex of (r, s) \<Rightarrow> (r, s, True))
                  else (None, st, False))
           in case raised of
                Some e \<Rightarrow> \<lparr>returned = Inl e, state_after = st', refreshed = called\<rparr>
              | None \<Rightarrow>
                  if \<not> truthy (access_token st') then
                    \<lparr>returned = Inl (PyException ''Failed to obtain access token''),
                     state_after = st', refreshed = called\<rparr>
                  else \<lparr>returned = Inr (access_token st'), state_after = st', refreshed = called\<rparr>))"

section \<open>RequestSigner: \<^verbatim>\<open>auth/aws_auth.py\<close>\<close>

text \<open>The fields of \<^verbatim>\<open>SPAPIConfig\<close> that the request core reads.\<close>

record config =
  base_url :: string
  aws_access_key_id :: string
  aws_secret_access_key :: string
  aws_session_token :: "string option"
  aws_region :: string
  aws_role_arn :: string
  retry_attempts :: int
  rate_limit_buffer :: real

record credentials =
  access_key :: string
  secret_key :: string
  session_token :: "string option"

text \<open>
  The library functions the pipeline calls, taken as parameters: \<^verbatim>\<open>urllib.parse.urljoin\<close>,
  \<^verbatim>\<open>json.dumps\<close>, \<^verbatim>\<open>str\<close> as an f-string applies it, and the headers botocore's
  \<^verbatim>\<open>SigV4Auth(credentials, service, region).add_auth(request)\<close> leaves on the request (at the
  signing time of the call). A \<^verbatim>\<open>str\<close> is its UTF-8 bytes, so \<^verbatim>\<open>encode('utf-8')\<close> is the
  identity.
\<close>

record externals =
  urljoin :: "string \<Rightarrow> string \<Rightarrow> string"
  json_dumps :: "pyval \<Rightarrow> string"
  py_str :: "pyval \<Rightarrow> string"
  sigv4_headers :: "credentials \<Rightarrow> string \<Rightarrow> string \<Rightarrow> aws_request \<Rightarrow> (string \<times> pyval) list"

text \<open>What the STS \<^verbatim>\<open>assume_role\<close> call comes to: an exception, or temporary credentials.\<close>

datatype sts_outcome = StsFailed string | Assumed credentials

text \<open>
  \<^verbatim>\<open>get_credentials\<close>: the cached credentials if any; otherwise the assumed role's when a
  role is configured, the configured keys when not. The second component is the cache after.
\<close>

definition get_credentials :: "config \<Rightarrow> credentials option \<Rightarrow> sts_outcome \<Rightarrow> (exn + credentials) \<times> credentials option" where
  "get_credentials cfg cache sts =
     (case cache of
        Some creds \<Rightarrow> (Inr creds, cache)
      | None \<Rightarrow>
          if aws_role_arn cfg \<noteq> [] then
            (case sts of
               StsFailed e \<Rightarrow> (Inl (PyException (''AWS credentials error: '' @ e)), None)
             | Assumed creds \<Rightarrow> (Inr creds, Some creds))
          else
            (let creds = \<lparr>access_key = aws_access_key_id cfg,
                          secret_key = aws_secret_access_key cfg,
                          session_token = aws_session_token cfg\<rparr>
             in (Inr creds, Some creds)))"

definition sign_request :: "externals \<Rightarrow> config \<Rightarrow> credentials option \<Rightarrow> sts_outcome \<Rightarrow> aws_request \<Rightarrow> (exn + aws_request) \<times> credentials option" where
  "sign_request ext cfg cache sts request =
     (case get_credentials cfg cache sts of
        (Inl e, cache') \<Rightarrow> (Inl e, cache')
      | (Inr creds, cache') \<Rightarrow>
          (Inr (request\<lparr>req_headers := sigv4_headers ext creds ''execute-api'' (aws_region cfg) request\<rparr>),
           cache'))"

definition create_signed_request :: "externals \<Rightarrow> config \<Rightarrow> credentials option \<Rightarrow> sts_outcome \<Rightarrow> string \<Rightarrow> string \<Rightarrow> (string \<times> pyval) list option \<Rightarrow> string option \<Rightarrow> (exn + aws_request) \<times> credentials option" where
  "create_signed_request ext cfg cache sts method url headers data =
     (let headers' = (case headers of None \<Rightarrow> [] | Some h \<Rightarrow> h);
          request = \<lparr>req_method = method, req_url = url, req_headers = headers', req_body = data\<rparr>
      in sign_request ext cfg cache sts request)"

section \<open>RequestPipeline: \<^verbatim>\<open>SPAPIClient.request\<close>\<close>

text \<open>\<^verbatim>\<open>str.upper\<close> on ASCII letters, which is what an HTTP method is made of.\<close>

definition upper_char :: "char \<Rightarrow> char" where
  "upper_char c = (let n = (of_char c :: nat) in if 97 \<le> n \<and> n \<le> 122 then char_of (n - 32) else c)"

definition upper :: "string \<Rightarrow> string" where
  "upper s = map upper_char s"

text \<open>\<^verbatim>\<open>sep.join(xs)\<close>.\<close>

fun join :: "string \<Rightarrow> string list \<Rightarrow> string" where
  "join sep [] = []"
| "join sep [x] = x"
| "join sep (x # y # ys) = x @ sep @ join sep (y # ys)"

text \<open>The state the client object holds, and what the outside world gives one call.\<close>

record client =
  lwa :: lwa_state
  aws_credentials :: "credentials option"
  limiter :: rate_limiter

record world =
  bucket_created :: real
  limiter_clock :: "real list"
  utcnow :: datetime
  utcnow_refresh :: datetime
  token_endpoint :: token_exchange
  sts :: sts_outcome
  transport_calls :: "nat \<Rightarrow> transport"
  jitter_samples :: "nat \<Rightarrow> real"

definition default_headers :: "(string \<times> pyval) list" where
  "default_headers =
     [(''User-Agent'', PyStr ''amazon-sp-api-mcp/1.0.0''),
      (''Content-Type'', PyStr ''application/json'')]"

definition request_headers :: "(string \<times> pyval) list option \<Rightarrow> (string \<times> pyval) list" where
  "request_headers headers =
     (case headers of
        None \<Rightarrow> default_headers
      | Some h \<Rightarrow> if h \<noteq> [] then dict_update default_headers h else default_headers)"

text \<open>
  The authentication step: the value stored under \<^verbatim>\<open>x-amz-access-token\<close> (or the exception),
  and the token manager's state after. The restricted-data token is used when
  \<^verbatim>\<open>use_rdt and rdt_token\<close> is true, that is, when the flag is set and the token is a non-empty
  string.
\<close>

definition add_authentication :: "lwa_state \<Rightarrow> world \<Rightarrow> bool \<Rightarrow> string option \<Rightarrow> token_call" where
  "add_authentication st w use_rdt rdt_token =
     (case (use_rdt, rdt_token) of
        (True, Some t) \<Rightarrow>
          if t \<noteq> [] then \<lparr>returned = Inr (PyStr t), state_after = st, refreshed = False\<rparr>
          else get_access_token st (utcnow w) (utcnow_refresh w) (token_endpoint w) False
      | _ \<Rightarrow> get_access_token st (utcnow w) (utcnow_refresh w) (token_endpoint w) False)"

definition request_data :: "externals \<Rightarrow> pyval option \<Rightarrow> string option" where
  "request_data ext data =
     (case data of
        None \<Rightarrow> None
      | Some d \<Rightarrow>
          if truthy d then
            (case d of
               PyDict _ \<Rightarrow> Some (json_dumps ext d)
             | PyList _ \<Rightarrow> Some (json_dumps ext d)
             | PyStr s \<Rightarrow> Some s
             | PyBytes b \<Rightarrow> Some b
             | _ \<Rightarrow> None)
          else None)"

definition query_string :: "externals \<Rightarrow> (string \<times> pyval) list \<Rightarrow> string" where
  "query_string ext params =
     ''?'' @ join ''&'' (map (\<lambda>(k, v). k @ ''='' @ py_str ext v) (filter (\<lambda>(k, v). v \<noteq> PyNone) params))"

definition add_query_parameters :: "externals \<Rightarrow> (string \<times> pyval) list option \<Rightarrow> aws_request \<Rightarrow> aws_request" where
  "add_query_parameters ext params r =
     (case params of
        None \<Rightarrow> r
      | Some p \<Rightarrow> if p \<noteq> [] then r\<lparr>req_url := req_url r @ query_string ext p\<rparr> else r)"

text \<open>
  The body of \<^verbatim>\<open>request\<close> from the URL to the query parameters: the request handed to
  \<^verbatim>\<open>execute_with_retry\<close>, or the exception raised on the way, and the client after.
\<close>

definition prepare_request :: "externals \<Rightarrow> config \<Rightarrow> client \<Rightarrow> world \<Rightarrow> string \<Rightarrow> string \<Rightarrow> (string \<times> pyval) list option \<Rightarrow> pyval option \<Rightarrow> (string \<times> pyval) list option \<Rightarrow> bool \<Rightarrow> string option \<Rightarrow> (exn + aws_request) \<times> client" where
  "prepare_request ext cfg c w method path params data headers use_rdt rdt_token =
     (let url = urljoin ext (base_url cfg) path;
          hs = request_headers headers;
          auth = add_authentication (lwa c) w use_rdt rdt_token;
          c1 = c\<lparr>lwa := state_after auth\<rparr>
      in case returned auth of
           Inl e \<Rightarrow> (Inl e, c1)
         | Inr tok \<Rightarrow>
             (let hs' = dict_set hs ''x-amz-access-token'' tok;
                  body = request_data ext data
              in case create_signed_request ext cfg (aws_credentials c1) (sts w)
                        (upper method) url (Some hs') body of
                   (Inl e, cache) \<Rightarrow> (Inl e, c1\<lparr>aws_credentials := cache\<rparr>)
                 | (Inr r, cache) \<Rightarrow>
                     (Inr (add_query_parameters ext params r), c1\<lparr>aws_credentials := cache\<rparr>)))"

text \<open>
  \<^verbatim>\<open>request\<close>. \<open>response = None\<close> is a call still suspended in the rate limiter when the
  clock readings given for it run out; \<open>sent\<close> is the request given to the transport.
\<close>

record request_result =
  response :: "(exn + pyval) option"
  sent :: "aws_request option"
  client_after :: client
  transport_attempts :: nat

definition request :: "externals \<Rightarrow> config \<Rightarrow> client \<Rightarrow> world \<Rightarrow> string \<Rightarrow> string \<Rightarrow> string \<Rightarrow> (string \<times> pyval) list option \<Rightarrow> pyval option \<Rightarrow> (string \<times> pyval) list option \<Rightarrow> bool \<Rightarrow> string option \<Rightarrow> request_result" where
  "request ext cfg c w method endpoint path params data headers use_rdt rdt_token =
     (case acquire (limiter c) endpoint (bucket_created w) (limiter_clock w) of
        (rl, Waiting) \<Rightarrow>
          \<lparr>response = None, sent = None, client_after = c\<lparr>limiter := rl\<rparr>, transport_attempts = 0\<rparr>
      | (rl, Raised e) \<Rightarrow>
          \<lparr>response = Some (Inl e), sent = None, client_after = c\<lparr>limiter := rl\<rparr>,
           transport_attempts = 0\<rparr>
      | (rl, Granted t) \<Rightarrow>
          (case prepare_request ext cfg (c\<lparr>limiter := rl\<rparr>) w method path params data headers
                  use_rdt rdt_token of
             (Inl e, c') \<Rightarrow>
               \<lparr>response = Some (Inl e), sent = None, client_after = c', transport_attempts = 0\<rparr>
           | (Inr r, c') \<Rightarrow>
               (let rr = execute_with_retry (retry_attempts cfg)
                           (\<lambda>k. execute_request r (transport_calls w k)) (jitter_samples w)
                in \<lparr>response = Some (outcome rr), sent = Some r, client_after = c',
                    transport_attempts = attempts rr\<rparr>)))"

section \<open>Sample inputs\<close>

text \<open>A signed request and transport replies, for running the definitions on.\<close>

definition orders_request :: aws_request where
  "orders_request =
     \<lparr>req_method = ''GET'', req_url = ''https://sellingpartnerapi-eu.amazon.com/orders/v0/orders'',
      req_headers = [], req_body = None\<rparr>"

definition the_response :: "int \<Rightarrow> http_response" where
  "the_response s = \<lparr>status_code = s, body_text = ''{}'', json = Some (PyDict [])\<rparr>"

definition reply :: "int \<Rightarrow> transport" where
  "reply s = Response (the_response s)"


text \<open>Stand-ins for the library functions, a configuration, a client and a world.\<close>

definition sample_externals :: externals where
  "sample_externals =
     \<lparr>urljoin = (\<lambda>base path. base @ path),
      json_dumps = (\<lambda>v. ''{}''),
      py_str = (\<lambda>v. case v of PyStr s \<Rightarrow> s | PyInt i \<Rightarrow> str_int i | _ \<Rightarrow> ''None''),
      sigv4_headers = (\<lambda>creds service region r.
         dict_set (req_headers r) ''Authorization''
           (PyStr (''AWS4-HMAC-SHA256 '' @ access_key creds @ ''/'' @ region @ ''/'' @ service @
             '' '' @ req_method r @ '' '' @ req_url r)))\<rparr>"

definition sample_config :: config where
  "sample_config =
     \<lparr>base_url = ''https://sellingpartnerapi-eu.amazon.com'',
      aws_access_key_id = ''AKIA'', aws_secret_access_key = ''secret'',
      aws_session_token = None, aws_region = ''eu-west-1'',
      aws_role_arn = ''arn:aws:iam::123456789012:role/test-role'',
      retry_attempts = 3, rate_limit_buffer = 1 / 10\<rparr>"

definition sample_client :: client where
  "sample_client =
     \<lparr>lwa = \<lparr>access_token = PyStr ''Atza'', token_expires_at = Some (seconds 3600)\<rparr>,
      aws_credentials = None,
      limiter = rate_limiter_init (1 / 10) (\<lambda>endpoint. 0)\<rparr>"

definition sample_world :: world where
  "sample_world =
     \<lparr>bucket_created = 0, limiter_clock = [1], utcnow = seconds 60, utcnow_refresh = seconds 61,
      token_endpoint = ExchangeFailed ''down'',
      sts = Assumed \<lparr>access_key = ''ASIA'', secret_key = ''temp'', session_token = Some ''session''\<rparr>,
      transport_calls = (\<lambda>k. reply 200), jitter_samples = (\<lambda>k. 1)\<rparr>"

text \<open>
  A world in which the cached token of the sample client is due and the token endpoint
  answers with a new one.
\<close>

definition stale_world :: world where
  "stale_world =
     sample_world\<lparr>utcnow := seconds 3500, utcnow_refresh := seconds 3501,
       token_endpoint :=
         ExchangeJson (PyDict [(''access_token'', PyStr ''Atzb''), (''expires_in'', PyInt 3600)])\<rparr>"

section \<open>Properties of the retry policy\<close>

lemma upt_0_4: "[0..<4] = [0, 1, 2, Suc 2]"
  by (simp add: upt_rec)

lemma should_retry_PyInt:
  assumes "status_of e = Some (PyInt s)"
  shows "should_retry e = Inr (s \<in> {401, 429, 500, 502, 503, 504})"
  using assms
  by (auto simp: should_retry_def status_of_def status_verdict_def dict_get_def status_in_def
      status_eq_def retry_statuses_def is_network_error_def Let_def split: exn.splits)

lemma status_of_execute_request:
  "execute_request req (Response r) = Inl e \<Longrightarrow> status_of e = Some (PyInt (status_code r))"
  by (auto simp: execute_request_def status_of_def error_info_def split: if_splits)

lemma should_retry_wrapped_transport_failure:
  "should_retry (SPAPIError m [(''original_error'', PyStr x)]) =
     Inl (TypeError (le_not_supported PyNone))"
  by (simp add: should_retry_def status_verdict_def dict_get_def status_in_def status_eq_def)

lemma execute_request_reply:
  "execute_request req (reply s) =
     (if s = 204 then Inr success_marker
      else if s \<ge> 400 then Inl (SPAPIError (''API error '' @ str_int s) (error_info req (the_response s)))
      else Inr (PyDict []))"
  by (simp add: execute_request_def reply_def the_response_def response_data_def)

lemma status_of_api_error: "status_of (SPAPIError m (error_info req r)) = Some (PyInt (status_code r))"
  by (simp add: status_of_def error_info_def)

text \<open>
  C1. A transport failure reaches the retry policy wrapped as an \<^verbatim>\<open>SPAPIError\<close> whose details
  hold only \<^verbatim>\<open>original_error\<close>. The classifier does not answer for it: the comparison
  \<^verbatim>\<open>400 <= None\<close> raises \<^verbatim>\<open>TypeError\<close>, so with three retries allowed the operation is called
  once, nothing is slept, and the caller gets the \<^verbatim>\<open>TypeError\<close>, not a retry and not the
  transport failure.
\<close>

theorem transport_failure_raises_type_error:
  "should_retry (SPAPIError (''Request failed: '' @ msg) [(''original_error'', PyStr msg)]) =
     Inl (TypeError (le_not_supported PyNone)) \<and>
   execute_with_retry 3 (\<lambda>k. execute_request req (RequestException msg)) jitter =
     \<lparr>outcome = Inl (TypeError (le_not_supported PyNone)),
      attempts = 1, sleeps = []\<rparr>"
  by (simp add: execute_with_retry_def upt_0_4 execute_request_def
      should_retry_wrapped_transport_failure)

text \<open>
  C3. With \<^verbatim>\<open>max_retries = 3\<close>: when every attempt fails with an error the classifier
  calls retryable, the operation is called exactly 4 times and the caller gets the error of
  the fourth call; when the first attempt fails with HTTP 404 it is called once and that error
  is raised; when two attempts fail with HTTP 503 and the third returns, it is called 3 times
  and the third call's value is returned.
\<close>

theorem execute_with_retry_attempts:
  "((\<forall>k. \<exists>e. func k = Inl e \<and> should_retry e = Inr True) \<longrightarrow>
      attempts (execute_with_retry 3 func jitter) = 4 \<and>
      outcome (execute_with_retry 3 func jitter) = func 3) \<and>
   (func 0 = Inl e \<and> status_of e = Some (PyInt 404) \<longrightarrow>
      attempts (execute_with_retry 3 func jitter) = 1 \<and>
      outcome (execute_with_retry 3 func jitter) = Inl e) \<and>
   (func 0 = Inl e0 \<and> status_of e0 = Some (PyInt 503) \<and>
    func 1 = Inl e1 \<and> status_of e1 = Some (PyInt 503) \<and> func 2 = Inr v \<longrightarrow>
      attempts (execute_with_retry 3 func jitter) = 3 \<and>
      outcome (execute_with_retry 3 func jitter) = Inr v)"
proof (intro conjI impI)
  assume all: "\<forall>k. \<exists>e. func k = Inl e \<and> should_retry e = Inr True"
  then obtain a b c d where f: "func 0 = Inl a" "func 1 = Inl b" "func 2 = Inl c" "func 3 = Inl d"
    and r: "should_retry a = Inr True" "should_retry b = Inr True" "should_retry c = Inr True"
    by metis
  have s: "func (Suc 0) = Inl b" "func (Suc 2) = Inl d"
    using f by (simp_all add: numeral_3_eq_3 eval_nat_numeral)
  show "attempts (execute_with_retry 3 func jitter) = 4"
    by (simp add: execute_with_retry_def upt_0_4 f s r retried_def calculate_backoff_def)
  show "outcome (execute_with_retry 3 func jitter) = func 3"
    by (simp add: execute_with_retry_def upt_0_4 f s r retried_def calculate_backoff_def)
next
  assume h: "func 0 = Inl e \<and> status_of e = Some (PyInt 404)"
  then have r: "should_retry e = Inr False"
    by (simp add: should_retry_PyInt)
  show "attempts (execute_with_retry 3 func jitter) = 1"
    using h by (simp add: execute_with_retry_def upt_0_4 r)
  show "outcome (execute_with_retry 3 func jitter) = Inl e"
    using h by (simp add: execute_with_retry_def upt_0_4 r)
next
  assume h: "func 0 = Inl e0 \<and> status_of e0 = Some (PyInt 503) \<and>
    func 1 = Inl e1 \<and> status_of e1 = Some (PyInt 503) \<and> func 2 = Inr v"
  then have r: "should_retry e0 = Inr True" "should_retry e1 = Inr True"
    by (simp_all add: should_retry_PyInt)
  have f: "func 0 = Inl e0" "func (Suc 0) = Inl e1" "func 2 = Inr v"
    using h by simp_all
  show "attempts (execute_with_retry 3 func jitter) = 3"
    by (simp add: execute_with_retry_def upt_0_4 f r retried_def calculate_backoff_def)
  show "outcome (execute_with_retry 3 func jitter) = Inr v"
    by (simp add: execute_with_retry_def upt_0_4 f r retried_def calculate_backoff_def)
qed

theorem execute_with_retry_attempts_witness:
  "attempts (execute_with_retry 3 (\<lambda>k. execute_request orders_request (reply 503)) (\<lambda>k. 1)) = 4 \<and>
   outcome (execute_with_retry 3 (\<lambda>k. execute_request orders_request (reply 503)) (\<lambda>k. 1)) =
     execute_request orders_request (reply 503) \<and>
   attempts (execute_with_retry 3 (\<lambda>k. execute_request orders_request (reply 404)) (\<lambda>k. 1)) = 1 \<and>
   outcome (execute_with_retry 3 (\<lambda>k. execute_request orders_request (reply 404)) (\<lambda>k. 1)) =
     execute_request orders_request (reply 404) \<and>
   attempts (execute_with_retry 3
      (\<lambda>k. execute_request orders_request (reply (if k < 2 then 503 else 200))) (\<lambda>k. 1)) = 3 \<and>
   outcome (execute_with_retry 3
      (\<lambda>k. execute_request orders_request (reply (if k < 2 then 503 else 200))) (\<lambda>k. 1)) =
     Inr (PyDict [])"
proof -
  let ?e = "\<lambda>s. SPAPIError (''API error '' @ str_int s) (error_info orders_request (the_response s))"
  have a: "\<forall>k. \<exists>e. execute_request orders_request (reply 503) = Inl e \<and> should_retry e = Inr True"
    by (simp add: execute_request_reply should_retry_PyInt [OF status_of_api_error]
        the_response_def)
  have b: "execute_request orders_request (reply 404) = Inl (?e 404) \<and>
      status_of (?e 404) = Some (PyInt 404)"
    by (simp add: execute_request_reply status_of_api_error the_response_def)
  have c: "execute_request orders_request (reply (if (0::nat) < 2 then 503 else 200)) = Inl (?e 503) \<and>
      status_of (?e 503) = Some (PyInt 503) \<and>
      execute_request orders_request (reply (if (1::nat) < 2 then 503 else 200)) = Inl (?e 503) \<and>
      status_of (?e 503) = Some (PyInt 503) \<and>
      execute_request orders_request (reply (if (2::nat) < 2 then 503 else 200)) = Inr (PyDict [])"
    by (simp add: execute_request_reply status_of_api_error the_response_def)
  show ?thesis
    using a b c
      execute_with_retry_attempts
        [where func = "\<lambda>k. execute_request orders_request (reply 503)" and jitter = "\<lambda>k. 1"]
      execute_with_retry_attempts
        [where func = "\<lambda>k. execute_request orders_request (reply 404)" and e = "?e 404"
           and jitter = "\<lambda>k. 1"]
      execute_with_retry_attempts
        [where func = "\<lambda>k. execute_request orders_request (reply (if k < 2 then 503 else 200))"
           and ?e0.0 = "?e 503" and ?e1.0 = "?e 503" and v = "PyDict []" and jitter = "\<lambda>k. 1"]
    by (simp add: b)
qed

text \<open>
  C4. For an error that carries an integer HTTP status, the classifier answers (it does not
  raise), and it answers retryable exactly when the status is one of 429, 500, 502, 503, 504
  or is 401; every other status from 400 up to 499 is not retryable. The errors the transport
  call raises for a response carry the response's status.
\<close>

theorem should_retry_by_status:
  "status_of e = Some (PyInt s) \<longrightarrow>
     should_retry e = Inr (s \<in> {429, 500, 502, 503, 504} \<or> s = 401) \<and>
     (400 \<le> s \<and> s < 500 \<and> s \<noteq> 429 \<and> s \<noteq> 401 \<longrightarrow> should_retry e = Inr False) \<and>
     (execute_request req (Response r) = Inl e \<longrightarrow> s = status_code r)"
proof (intro impI conjI)
  assume st: "status_of e = Some (PyInt s)"
  show "should_retry e = Inr (s \<in> {429, 500, 502, 503, 504} \<or> s = 401)"
    using should_retry_PyInt [OF st] by auto
  show "should_retry e = Inr False" if "400 \<le> s \<and> s < 500 \<and> s \<noteq> 429 \<and> s \<noteq> 401"
    using should_retry_PyInt [OF st] that by auto
  show "s = status_code r" if "execute_request req (Response r) = Inl e"
    using status_of_execute_request [OF that] st by simp
qed

theorem should_retry_by_status_witness:
  "should_retry (SPAPIError ''API error 403'' (error_info orders_request (the_response 403))) =
     Inr False \<and>
   should_retry (SPAPIError ''API error 401'' (error_info orders_request (the_response 401))) =
     Inr True"
  using
    should_retry_by_status
      [of "SPAPIError ''API error 403'' (error_info orders_request (the_response 403))" 403]
    should_retry_by_status
      [of "SPAPIError ''API error 401'' (error_info orders_request (the_response 401))" 401]
  by (simp add: status_of_api_error the_response_def)

lemma calculate_backoff_overflow:
  "1024 \<le> k \<Longrightarrow> calculate_backoff k j = Inl (OverflowError ''int too large to convert to float'')"
  by (simp add: calculate_backoff_def)

text \<open>
  C5, as the code has it. For an attempt index \<open>k\<close> below 1024 and a jitter sample in
  \<open>[0.5, 1.5)\<close> the backoff is computed, and the delay is \<open>min 60 (2 ^ k * jitter)\<close>; it lies
  between \<open>min 60 (2 ^ k * 0.5)\<close> and \<open>min 60 (2 ^ k * 1.5)\<close>, and the lower bound
  \<open>2 ^ k * 0.5\<close> of the claim holds for \<open>k \<le> 6\<close>, where the cap of 60 seconds is above it.
\<close>

theorem calculate_backoff_bounds:
  assumes "1/2 \<le> j" and "j < 3/2" and "k < 1024"
  shows "\<exists>d. calculate_backoff k j = Inr d \<and> d = min 60 (2 ^ k * j) \<and>
     min 60 (2 ^ k * (1/2)) \<le> d \<and> d \<le> min 60 (2 ^ k * (3/2)) \<and>
     (k \<le> 6 \<longrightarrow> 2 ^ k * (1/2) \<le> d)"
proof -
  have p: "(0::real) \<le> 2 ^ k" by simp
  have lo: "(2::real) ^ k * (1/2) \<le> 2 ^ k * j"
    using assms(1) p by (rule mult_left_mono)
  have "j \<le> 3/2" using assms(2) by simp
  then have hi: "(2::real) ^ k * j \<le> 2 ^ k * (3/2)"
    using p by (rule mult_left_mono)
  have small: "(2::real) ^ k * (1/2) \<le> 60" if "k \<le> 6"
  proof -
    have "(2::real) ^ k \<le> 2 ^ 6"
      using that by (intro power_increasing) simp_all
    then show ?thesis by simp
  qed
  have c1: "calculate_backoff k j = Inr (min 60 (2 ^ k * j))"
    using assms(3) by (simp add: calculate_backoff_def)
  have c2: "min 60 ((2::real) ^ k * (1/2)) \<le> min 60 (2 ^ k * j)"
    using lo by (intro min.mono) simp_all
  have c3: "min 60 ((2::real) ^ k * j) \<le> min 60 (2 ^ k * (3/2))"
    using hi by (intro min.mono) simp_all
  have c4: "k \<le> 6 \<longrightarrow> (2::real) ^ k * (1/2) \<le> min 60 (2 ^ k * j)"
    using lo small by (simp only: min.bounded_iff) blast
  show ?thesis
    using c1 c2 c3 c4 by blast
qed

theorem calculate_backoff_bounds_witness:
  "(1/2::real) \<le> 1 \<and> (1::real) < 3/2 \<and> (2::nat) < 1024 \<and> calculate_backoff 2 1 = Inr 4 \<and>
   (2::real) ^ 2 * (1/2) \<le> 4 \<and> (4::real) \<le> min 60 (2 ^ 2 * (3/2))"
proof -
  have "\<exists>d. calculate_backoff 2 1 = Inr d \<and> d = min 60 (2 ^ 2 * 1)"
    using calculate_backoff_bounds [of 1 2] by auto
  then have "calculate_backoff 2 1 = Inr 4"
    by simp
  then show ?thesis by simp
qed

text \<open>
  The lower bound as the claim states it fails from \<open>k = 7\<close> on: with the jitter sample \<open>1\<close>
  the delay is the cap, 60 seconds, below \<open>2 ^ 7 * 0.5 = 64\<close>.
\<close>

theorem calculate_backoff_below_claimed_bound:
  "(1/2::real) \<le> 1 \<and> (1::real) < 3/2 \<and> calculate_backoff 7 1 = Inr 60 \<and>
   \<not> (2 ^ 7 * (1/2) \<le> (60::real))"
  by (simp add: calculate_backoff_def)

section \<open>Properties of the transport call\<close>

text \<open>
  C8, as the code has it. A 204 gives the empty-success marker. Any other response has its
  body parsed as JSON, with the raw text wrapped when parsing fails. A status of 400 or more
  raises the \<^verbatim>\<open>SPAPIError\<close> that carries the status, the parsed body, the URL and the method,
  and is never returned; a status below 400 other than 204 is returned as the parsed body.
\<close>

theorem execute_request_by_status:
  "(status_code r = 204 \<longrightarrow> execute_request req (Response r) = Inr success_marker) \<and>
   (status_code r \<noteq> 204 \<and> status_code r < 400 \<longrightarrow>
      execute_request req (Response r) = Inr (response_data r)) \<and>
   (status_code r \<ge> 400 \<longrightarrow>
      execute_request req (Response r) =
        Inl (SPAPIError (''API error '' @ str_int (status_code r))
          [(''status_code'', PyInt (status_code r)), (''response'', response_data r),
           (''url'', PyStr (req_url req)), (''method'', PyStr (req_method req))])) \<and>
   (\<forall>j. json r = Some j \<longrightarrow> response_data r = j) \<and>
   (json r = None \<longrightarrow> response_data r = PyDict [(''raw_content'', PyStr (body_text r))])"
  by (simp add: execute_request_def error_info_def response_data_def)

theorem execute_request_by_status_witness:
  "execute_request orders_request (reply 204) = Inr (PyDict [(''success'', PyBool True)]) \<and>
   execute_request orders_request (reply 200) = Inr (PyDict []) \<and>
   execute_request orders_request (reply 403) =
     Inl (SPAPIError ''API error 403''
       [(''status_code'', PyInt 403), (''response'', PyDict []),
        (''url'', PyStr ''https://sellingpartnerapi-eu.amazon.com/orders/v0/orders''),
        (''method'', PyStr ''GET'')])"
proof -
  have s: "str_int 403 = ''403''"
    by (simp add: str_int_def str_nat.simps digit_char_def)
  show ?thesis
    using execute_request_by_status [of "the_response 204" orders_request]
      execute_request_by_status [of "the_response 200" orders_request]
      execute_request_by_status [of "the_response 403" orders_request]
    by (simp add: reply_def the_response_def success_marker_def orders_request_def s)
qed

text \<open>
  The claim's "any non-2xx response" fails below 400: a 304 with an empty body is returned
  to the caller as a value.
\<close>

theorem execute_request_returns_304:
  "\<not> (200 \<le> (304::int) \<and> (304::int) < 300) \<and>
   execute_request orders_request (Response \<lparr>status_code = 304, body_text = [], json = None\<rparr>) =
     Inr (PyDict [(''raw_content'', PyStr [])])"
  by (simp add: execute_request_def response_data_def)

section \<open>Properties of the rate limiter\<close>

lemma refill_fields [simp]:
  "max_tokens (refill b now) = max_tokens b"
  "refill_rate (refill b now) = refill_rate b"
  "last_refill (refill b now) = now"
  by (simp_all add: refill_def Let_def)



lemma acquire_pass_fields [simp]:
  "max_tokens (fst (acquire_pass buf b now)) = max_tokens b"
  "refill_rate (fst (acquire_pass buf b now)) = refill_rate b"
  "last_refill (fst (acquire_pass buf b now)) = now"
  by (simp_all add: acquire_pass_def Let_def)






lemma rate_limiter_init_ok:
  "list_all (\<lambda>(endpoint, b). bucket_ok b \<and> tokens b = max_tokens b)
     (buckets (rate_limiter_init buf created))"
  by (simp add: rate_limiter_init_def RATE_LIMITS_def new_bucket_def bucket_ok_def)



section \<open>Properties of the token manager\<close>

lemma is_token_expired_in_range:
  assumes "is_datetime (now + minutes 5)"
  shows "is_token_expired st now =
     Inr (\<not> truthy (access_token st) \<or> token_expires_at st = None \<or>
          (\<exists>T. token_expires_at st = Some T \<and> now + minutes 5 \<ge> T))"
  using assms
  by (auto simp: is_token_expired_def datetime_add_def Let_def split: option.splits bool.splits)

lemma is_token_expired_overflow:
  assumes "truthy (access_token st)" and "token_expires_at st = Some T"
    and "\<not> is_datetime (now + minutes 5)"
  shows "is_token_expired st now = Inl (OverflowError ''date value out of range'')"
  using assms by (simp add: is_token_expired_def datetime_add_def)

lemma get_access_token_cached:
  assumes "truthy tok" and "is_datetime now" and "is_datetime T" and "now < T - minutes 5"
  shows "get_access_token \<lparr>access_token = tok, token_expires_at = Some T\<rparr> now now' ex False =
     \<lparr>returned = Inr tok, state_after = \<lparr>access_token = tok, token_expires_at = Some T\<rparr>,
      refreshed = False\<rparr>"
proof -
  have "is_datetime (now + minutes 5)"
    using assms(2-4) by (simp add: is_datetime_def minutes_def seconds_def)
  then have "is_token_expired \<lparr>access_token = tok, token_expires_at = Some T\<rparr> now = Inr False"
    using assms(1,4) by (simp add: is_token_expired_in_range)
  then show ?thesis
    using assms(1) by (simp add: get_access_token_def)
qed



lemma refresh_access_token_failure:
  assumes "ex = ExchangeFailed msg \<or> (ex = ExchangeJson (PyDict d) \<and> map_of d ''access_token'' = None)"
  shows "(\<exists>e. fst (refresh_access_token st now ex) = Some e) \<and>
     snd (refresh_access_token st now ex) = st"
  using assms by (auto simp: refresh_access_token_def)




text \<open>
  C7. When the exchange fails (the POST raises, the status is an error, the body is not
  JSON) or the decoded object has no \<^verbatim>\<open>access_token\<close>, the refresh raises and the cached
  state is what it was: a cached token and its expiry stay, an empty cache stays empty. A
  \<^verbatim>\<open>get_access_token\<close> call whose exchange would fail so leaves the state as it was too, and
  raises unless it returns the cached token without refreshing.
\<close>

theorem refresh_failure_keeps_state:
  "(ex = ExchangeFailed msg \<or> (ex = ExchangeJson (PyDict d) \<and> map_of d ''access_token'' = None)) \<longrightarrow>
     (\<exists>e. fst (refresh_access_token st now ex) = Some e) \<and>
     snd (refresh_access_token st now ex) = st \<and>
     state_after (get_access_token st now0 now ex force) = st \<and>
     (is_token_expired st now0 \<noteq> Inr False \<or> force \<longrightarrow>
        (\<exists>e. returned (get_access_token st now0 now ex force) = Inl e))"
proof (intro impI)
  assume h: "ex = ExchangeFailed msg \<or> (ex = ExchangeJson (PyDict d) \<and> map_of d ''access_token'' = None)"
  from refresh_access_token_failure [OF h, of st now]
  obtain e where r: "refresh_access_token st now ex = (Some e, st)"
    by (cases "refresh_access_token st now ex") auto
  have 3: "state_after (get_access_token st now0 now ex force) = st"
    by (cases "is_token_expired st now0") (auto simp: get_access_token_def r)
  have 4: "\<exists>e. returned (get_access_token st now0 now ex force) = Inl e"
    if "is_token_expired st now0 \<noteq> Inr False \<or> force"
    using that by (cases "is_token_expired st now0") (auto simp: get_access_token_def r)
  show "(\<exists>e. fst (refresh_access_token st now ex) = Some e) \<and>
     snd (refresh_access_token st now ex) = st \<and>
     state_after (get_access_token st now0 now ex force) = st \<and>
     (is_token_expired st now0 \<noteq> Inr False \<or> force \<longrightarrow>
        (\<exists>e. returned (get_access_token st now0 now ex force) = Inl e))"
    using r 3 4 by simp
qed

theorem refresh_failure_keeps_state_witness:
  "refresh_access_token \<lparr>access_token = PyStr ''Atza'', token_expires_at = Some (seconds 3600)\<rparr>
      (seconds 3400) (ExchangeFailed ''timed out'') =
     (Some (PyException ''LWA token refresh failed: timed out''),
      \<lparr>access_token = PyStr ''Atza'', token_expires_at = Some (seconds 3600)\<rparr>) \<and>
   snd (refresh_access_token lwa_init (seconds 5)
      (ExchangeJson (PyDict [(''error'', PyStr ''invalid_grant'')]))) = lwa_init \<and>
   state_after (get_access_token lwa_init (seconds 5) (seconds 5)
      (ExchangeJson (PyDict [(''error'', PyStr ''invalid_grant'')])) False) = lwa_init"
proof -
  note a = refresh_failure_keeps_state
    [where ex = "ExchangeFailed ''timed out''" and msg = "''timed out''" and now = "seconds 3400"
       and st = "\<lparr>access_token = PyStr ''Atza'', token_expires_at = Some (seconds 3600)\<rparr>"]
  note b = refresh_failure_keeps_state
    [where ex = "ExchangeJson (PyDict [(''error'', PyStr ''invalid_grant'')])"
       and d = "[(''error'', PyStr ''invalid_grant'')]" and now = "seconds 5" and now0 = "seconds 5"
       and st = lwa_init and force = False]
  have 1: "snd (refresh_access_token \<lparr>access_token = PyStr ''Atza'', token_expires_at = Some (seconds 3600)\<rparr>
      (seconds 3400) (ExchangeFailed ''timed out'')) =
      \<lparr>access_token = PyStr ''Atza'', token_expires_at = Some (seconds 3600)\<rparr>"
    using a by blast
  have 2: "snd (refresh_access_token lwa_init (seconds 5)
      (ExchangeJson (PyDict [(''error'', PyStr ''invalid_grant'')]))) = lwa_init \<and>
    state_after (get_access_token lwa_init (seconds 5) (seconds 5)
      (ExchangeJson (PyDict [(''error'', PyStr ''invalid_grant'')])) False) = lwa_init"
    using b by simp
  have 3: "fst (refresh_access_token \<lparr>access_token = PyStr ''Atza'', token_expires_at = Some (seconds 3600)\<rparr>
      (seconds 3400) (ExchangeFailed ''timed out'')) =
      Some (PyException ''LWA token refresh failed: timed out'')"
    by (simp add: refresh_access_token_def)
  show ?thesis
    using 1 2 3 by (simp add: prod_eq_iff)
qed

section \<open>Properties of the request pipeline\<close>

lemma prepare_request_params:
  "prepare_request ext cfg c w m path params data hs u t =
     map_prod (map_sum id (add_query_parameters ext params)) id
       (prepare_request ext cfg c w m path None data hs u t)"
  by (simp add: prepare_request_def Let_def add_query_parameters_def split: sum.splits prod.splits)

lemma add_query_parameters_fields [simp]:
  "req_headers (add_query_parameters ext params r) = req_headers r"
  "req_method (add_query_parameters ext params r) = req_method r"
  "req_body (add_query_parameters ext params r) = req_body r"
  by (simp_all add: add_query_parameters_def split: option.splits)

lemma query_string_nonnull:
  "query_string ext (filter (\<lambda>(k, v). v \<noteq> PyNone) p) = query_string ext p"
  by (simp add: query_string_def)

lemma prepare_request_headers:
  "map_sum id req_headers (fst (prepare_request ext cfg c w m path p1 data hs u t)) =
   map_sum id req_headers (fst (prepare_request ext cfg c w m path p2 data hs u t))"
proof -
  have "map_sum id req_headers (fst (prepare_request ext cfg c w m path p data hs u t)) =
      map_sum id req_headers (fst (prepare_request ext cfg c w m path None data hs u t))" for p
    by (subst prepare_request_params)
      (cases "fst (prepare_request ext cfg c w m path None data hs u t)"; simp)
  from this [of p1] this [of p2] show ?thesis by simp
qed

lemma prepare_request_signed:
  assumes "fst (prepare_request ext cfg c w m path params data hs u t) = Inr r"
  shows "\<exists>creds tok. req_headers r =
     sigv4_headers ext creds ''execute-api'' (aws_region cfg)
       \<lparr>req_method = upper m, req_url = urljoin ext (base_url cfg) path,
        req_headers = dict_set (request_headers hs) ''x-amz-access-token'' tok,
        req_body = request_data ext data\<rparr>"
  using assms
  by (fastforce simp: prepare_request_def create_signed_request_def sign_request_def Let_def
      split: sum.splits prod.splits)

lemma add_query_parameters_nonnull:
  assumes "filter (\<lambda>(k, v). v \<noteq> PyNone) p = filter (\<lambda>(k, v). v \<noteq> PyNone) q"
    and "p = [] \<longleftrightarrow> q = []"
  shows "add_query_parameters ext (Some p) r = add_query_parameters ext (Some q) r"
  using assms by (simp add: add_query_parameters_def query_string_def)

lemma prepare_request_nonnull:
  assumes "filter (\<lambda>(k, v). v \<noteq> PyNone) p = filter (\<lambda>(k, v). v \<noteq> PyNone) q"
    and "p = [] \<longleftrightarrow> q = []"
  shows "prepare_request ext cfg c w m path (Some p) data hs u t =
     prepare_request ext cfg c w m path (Some q) data hs u t"
proof -
  have "add_query_parameters ext (Some p) = add_query_parameters ext (Some q)"
    using add_query_parameters_nonnull [OF assms] by (intro ext)
  then show ?thesis
    by (subst prepare_request_params, subst (2) prepare_request_params) simp
qed

lemma request_sent_headers:
  "map_option req_headers (sent (request ext cfg c w m ep path p1 data hs u t)) =
   map_option req_headers (sent (request ext cfg c w m ep path p2 data hs u t))"
proof -
  obtain rl a where acq: "acquire (limiter c) ep (bucket_created w) (limiter_clock w) = (rl, a)"
    by (cases "acquire (limiter c) ep (bucket_created w) (limiter_clock w)")
  let ?c = "c\<lparr>limiter := rl\<rparr>"
  have h: "map_sum id req_headers (fst (prepare_request ext cfg ?c w m path p1 data hs u t)) =
      map_sum id req_headers (fst (prepare_request ext cfg ?c w m path p2 data hs u t))"
    by (rule prepare_request_headers)
  show ?thesis
  proof (cases a)
    case (Granted x)
    obtain r1 c1 where 1: "prepare_request ext cfg ?c w m path p1 data hs u t = (r1, c1)"
      by (cases "prepare_request ext cfg ?c w m path p1 data hs u t")
    obtain r2 c2 where 2: "prepare_request ext cfg ?c w m path p2 data hs u t = (r2, c2)"
      by (cases "prepare_request ext cfg ?c w m path p2 data hs u t")
    show ?thesis
      using h by (cases r1; cases r2) (simp_all add: request_def acq Granted 1 2 Let_def)
  qed (simp_all add: request_def acq)
qed

lemma request_nonnull:
  assumes "filter (\<lambda>(k, v). v \<noteq> PyNone) p = filter (\<lambda>(k, v). v \<noteq> PyNone) q"
    and "p = [] \<longleftrightarrow> q = []"
  shows "request ext cfg c w m ep path (Some p) data hs u t =
     request ext cfg c w m ep path (Some q) data hs u t"
  by (simp add: request_def prepare_request_nonnull [OF assms])

lemma upper_get: "upper ''get'' = ''GET''"
  by code_simp

lemma prepare_request_sample:
  "fst (prepare_request sample_externals sample_config sample_client sample_world ''get''
      ''/orders/v0/orders''
      (Some [(''CreatedAfter'', PyStr ''2024-01-01''), (''NextToken'', PyNone)])
      None None True None) =
   Inr \<lparr>req_method = ''GET'',
        req_url = ''https://sellingpartnerapi-eu.amazon.com/orders/v0/orders?CreatedAfter=2024-01-01'',
        req_headers =
          [(''User-Agent'', PyStr ''amazon-sp-api-mcp/1.0.0''),
           (''Content-Type'', PyStr ''application/json''),
           (''x-amz-access-token'', PyStr ''Atza''),
           (''Authorization'', PyStr
              ''AWS4-HMAC-SHA256 ASIA/eu-west-1/execute-api GET https://sellingpartnerapi-eu.amazon.com/orders/v0/orders'')],
        req_body = None\<rparr>"
  by (simp add: prepare_request_def sample_externals_def sample_config_def sample_client_def
      sample_world_def add_authentication_def get_access_token_def is_token_expired_def
      seconds_def minutes_def request_headers_def default_headers_def request_data_def
      create_signed_request_def sign_request_def get_credentials_def add_query_parameters_def
      query_string_def upper_get Let_def datetime_add_def is_datetime_def datetime_max_def)

lemma add_authentication_fallback:
  "add_authentication st w True None =
     get_access_token st (utcnow w) (utcnow_refresh w) (token_endpoint w) False"
  "add_authentication st w False t =
     get_access_token st (utcnow w) (utcnow_refresh w) (token_endpoint w) False"
  by (simp_all add: add_authentication_def split: option.splits)

text \<open>
  C9. The request handed to the transport is the request that was signed without any query
  parameters, with the query string appended to its URL afterwards: the signer is given the
  upper-cased method, the URL joined from base and path, the headers and the body, and its
  headers are the headers sent. So two calls that differ only in their parameters send the
  same headers, the signature among them. A parameter whose value is \<^verbatim>\<open>None\<close> is left out of
  the query string: a call sends the same request as one whose parameters have the same
  entries that are not \<^verbatim>\<open>None\<close> (both dictionaries empty, or neither).
\<close>

theorem query_parameters_outside_signature:
  "prepare_request ext cfg c w m path params data hs u t =
     map_prod (map_sum id (add_query_parameters ext params)) id
       (prepare_request ext cfg c w m path None data hs u t) \<and>
   (fst (prepare_request ext cfg c w m path params data hs u t) = Inr r \<longrightarrow>
      (\<exists>creds tok. req_headers r =
         sigv4_headers ext creds ''execute-api'' (aws_region cfg)
           \<lparr>req_method = upper m, req_url = urljoin ext (base_url cfg) path,
            req_headers = dict_set (request_headers hs) ''x-amz-access-token'' tok,
            req_body = request_data ext data\<rparr>)) \<and>
   map_sum id req_headers (fst (prepare_request ext cfg c w m path p1 data hs u t)) =
     map_sum id req_headers (fst (prepare_request ext cfg c w m path p2 data hs u t)) \<and>
   map_option req_headers (sent (request ext cfg c w m ep path p1 data hs u t)) =
     map_option req_headers (sent (request ext cfg c w m ep path p2 data hs u t)) \<and>
   query_string ext (filter (\<lambda>(k, v). v \<noteq> PyNone) p) = query_string ext p \<and>
   (filter (\<lambda>(k, v). v \<noteq> PyNone) p = filter (\<lambda>(k, v). v \<noteq> PyNone) q \<and> (p = [] \<longleftrightarrow> q = []) \<longrightarrow>
      request ext cfg c w m ep path (Some p) data hs u t =
        request ext cfg c w m ep path (Some q) data hs u t)"
proof (intro conjI impI)
  show "prepare_request ext cfg c w m path params data hs u t =
     map_prod (map_sum id (add_query_parameters ext params)) id
       (prepare_request ext cfg c w m path None data hs u t)"
    by (rule prepare_request_params)
  show "map_sum id req_headers (fst (prepare_request ext cfg c w m path p1 data hs u t)) =
     map_sum id req_headers (fst (prepare_request ext cfg c w m path p2 data hs u t))"
    by (rule prepare_request_headers)
  show "map_option req_headers (sent (request ext cfg c w m ep path p1 data hs u t)) =
     map_option req_headers (sent (request ext cfg c w m ep path p2 data hs u t))"
    by (rule request_sent_headers)
  show "query_string ext (filter (\<lambda>(k, v). v \<noteq> PyNone) p) = query_string ext p"
    by (rule query_string_nonnull)
next
  assume "fst (prepare_request ext cfg c w m path params data hs u t) = Inr r"
  then show "\<exists>creds tok. req_headers r =
         sigv4_headers ext creds ''execute-api'' (aws_region cfg)
           \<lparr>req_method = upper m, req_url = urljoin ext (base_url cfg) path,
            req_headers = dict_set (request_headers hs) ''x-amz-access-token'' tok,
            req_body = request_data ext data\<rparr>"
    by (rule prepare_request_signed)
next
  assume "filter (\<lambda>(k, v). v \<noteq> PyNone) p = filter (\<lambda>(k, v). v \<noteq> PyNone) q \<and> (p = [] \<longleftrightarrow> q = [])"
  then have "filter (\<lambda>(k, v). v \<noteq> PyNone) p = filter (\<lambda>(k, v). v \<noteq> PyNone) q"
    and "p = [] \<longleftrightarrow> q = []"
    by blast+
  then show "request ext cfg c w m ep path (Some p) data hs u t =
      request ext cfg c w m ep path (Some q) data hs u t"
    by (rule request_nonnull)
qed

theorem query_parameters_outside_signature_witness:
  "fst (prepare_request sample_externals sample_config sample_client sample_world ''get''
      ''/orders/v0/orders''
      (Some [(''CreatedAfter'', PyStr ''2024-01-01''), (''NextToken'', PyNone)])
      None None True None) =
   Inr \<lparr>req_method = ''GET'',
        req_url = ''https://sellingpartnerapi-eu.amazon.com/orders/v0/orders?CreatedAfter=2024-01-01'',
        req_headers =
          [(''User-Agent'', PyStr ''amazon-sp-api-mcp/1.0.0''),
           (''Content-Type'', PyStr ''application/json''),
           (''x-amz-access-token'', PyStr ''Atza''),
           (''Authorization'', PyStr
              ''AWS4-HMAC-SHA256 ASIA/eu-west-1/execute-api GET https://sellingpartnerapi-eu.amazon.com/orders/v0/orders'')],
        req_body = None\<rparr> \<and>
   request sample_externals sample_config sample_client sample_world ''get'' ''orders''
      ''/orders/v0/orders''
      (Some [(''CreatedAfter'', PyStr ''2024-01-01''), (''NextToken'', PyNone)])
      None None True None =
   request sample_externals sample_config sample_client sample_world ''get'' ''orders''
      ''/orders/v0/orders'' (Some [(''CreatedAfter'', PyStr ''2024-01-01'')])
      None None True None"
proof -
  let ?p = "[(''CreatedAfter'', PyStr ''2024-01-01''), (''NextToken'', PyNone)]"
  let ?q = "[(''CreatedAfter'', PyStr ''2024-01-01'')]"
  have same: "filter (\<lambda>(k, v). v \<noteq> PyNone) ?p = filter (\<lambda>(k, v). v \<noteq> PyNone) ?q \<and>
      (?p = [] \<longleftrightarrow> ?q = [])"
    by simp
  have "request sample_externals sample_config sample_client sample_world ''get'' ''orders''
      ''/orders/v0/orders'' (Some ?p) None None True None =
    request sample_externals sample_config sample_client sample_world ''get'' ''orders''
      ''/orders/v0/orders'' (Some ?q) None None True None"
    using same query_parameters_outside_signature
      [where ext = sample_externals and cfg = sample_config and c = sample_client
         and w = sample_world and m = "''get''" and ep = "''orders''"
         and path = "''/orders/v0/orders''" and p = ?p and q = ?q
         and data = None and hs = None and u = True and t = None]
    by blast
  then show ?thesis
    using prepare_request_sample by blast
qed

lemma map_of_dict_set: "map_of (dict_set d k v) k = Some v"
  by (induction d) auto

lemma prepare_request_fallback:
  assumes "returned (get_access_token (lwa c) (utcnow w) (utcnow_refresh w) (token_endpoint w) False) =
      Inr tok"
    and "fst (get_credentials cfg (aws_credentials c) (sts w)) = Inr creds"
  shows "fst (prepare_request ext cfg c w m path params data hs True None) =
      Inr (add_query_parameters ext params
        \<lparr>req_method = upper m, req_url = urljoin ext (base_url cfg) path,
         req_headers = sigv4_headers ext creds ''execute-api'' (aws_region cfg)
           \<lparr>req_method = upper m, req_url = urljoin ext (base_url cfg) path,
            req_headers = dict_set (request_headers hs) ''x-amz-access-token'' tok,
            req_body = request_data ext data\<rparr>,
         req_body = request_data ext data\<rparr>)"
    and "lwa (snd (prepare_request ext cfg c w m path params data hs True None)) =
      state_after (get_access_token (lwa c) (utcnow w) (utcnow_refresh w) (token_endpoint w) False)"
proof -
  obtain cache where g: "get_credentials cfg (aws_credentials c) (sts w) = (Inr creds, cache)"
    using assms(2) by (cases "get_credentials cfg (aws_credentials c) (sts w)") simp
  show "fst (prepare_request ext cfg c w m path params data hs True None) =
      Inr (add_query_parameters ext params
        \<lparr>req_method = upper m, req_url = urljoin ext (base_url cfg) path,
         req_headers = sigv4_headers ext creds ''execute-api'' (aws_region cfg)
           \<lparr>req_method = upper m, req_url = urljoin ext (base_url cfg) path,
            req_headers = dict_set (request_headers hs) ''x-amz-access-token'' tok,
            req_body = request_data ext data\<rparr>,
         req_body = request_data ext data\<rparr>)"
    using assms(1) g
    by (simp add: prepare_request_def add_authentication_fallback create_signed_request_def
        sign_request_def Let_def)
  show "lwa (snd (prepare_request ext cfg c w m path params data hs True None)) =
      state_after (get_access_token (lwa c) (utcnow w) (utcnow_refresh w) (token_endpoint w) False)"
    using assms(1) g
    by (simp add: prepare_request_def add_authentication_fallback create_signed_request_def
        sign_request_def Let_def)
qed

lemma prepare_request_fallback_raises:
  assumes "returned (get_access_token (lwa c) (utcnow w) (utcnow_refresh w) (token_endpoint w) False) =
      Inl e"
  shows "fst (prepare_request ext cfg c w m path params data hs True None) = Inl e"
  using assms by (simp add: prepare_request_def add_authentication_fallback Let_def)

lemma request_granted:
  assumes "snd (acquire (limiter c) ep (bucket_created w) (limiter_clock w)) = Granted t0"
    and "fst (prepare_request ext cfg (c\<lparr>limiter := fst (acquire (limiter c) ep (bucket_created w) (limiter_clock w))\<rparr>)
          w m path params data hs u t) = Inr r"
  shows "sent (request ext cfg c w m ep path params data hs u t) = Some r"
    and "response (request ext cfg c w m ep path params data hs u t) =
      Some (outcome (execute_with_retry (retry_attempts cfg)
        (\<lambda>k. execute_request r (transport_calls w k)) (jitter_samples w)))"
proof -
  obtain rl where a: "acquire (limiter c) ep (bucket_created w) (limiter_clock w) = (rl, Granted t0)"
    using assms(1) by (cases "acquire (limiter c) ep (bucket_created w) (limiter_clock w)") simp
  obtain c' where p: "prepare_request ext cfg (c\<lparr>limiter := rl\<rparr>) w m path params data hs u t = (Inr r, c')"
    using assms(2) a
    by (cases "prepare_request ext cfg (c\<lparr>limiter := rl\<rparr>) w m path params data hs u t") simp
  show "sent (request ext cfg c w m ep path params data hs u t) = Some r"
    by (simp add: request_def a p Let_def)
  show "response (request ext cfg c w m ep path params data hs u t) =
      Some (outcome (execute_with_retry (retry_attempts cfg)
        (\<lambda>k. execute_request r (transport_calls w k)) (jitter_samples w)))"
    by (simp add: request_def a p Let_def)
qed

text \<open>
  C10. With \<^verbatim>\<open>use_rdt\<close> set and no restricted token given, the authentication step is the
  call \<^verbatim>\<open>get_access_token()\<close> of the token manager, and the whole request is the request made
  with \<^verbatim>\<open>use_rdt\<close> unset: same result, same request sent, same client state. When a token is
  cached and not yet due, the step returns it without a refresh and without an error. When
  the token manager returns a token and the signer has credentials, that token is stored
  under \<^verbatim>\<open>x-amz-access-token\<close> in the headers given to the signer, the token manager's state
  after the call is the client's, and once the rate limiter grants, the signed request with
  the query string appended is sent and the caller gets what the retry loop over the
  transport gives. The request raises at this step only when the token manager raises.
\<close>

theorem missing_rdt_falls_back:
  "add_authentication st w True None =
     get_access_token st (utcnow w) (utcnow_refresh w) (token_endpoint w) False \<and>
   add_authentication st w True None = add_authentication st w False None \<and>
   prepare_request ext cfg c w m path params data hs True None =
     prepare_request ext cfg c w m path params data hs False None \<and>
   request ext cfg c w m ep path params data hs True None =
     request ext cfg c w m ep path params data hs False None \<and>
   (truthy tok \<and> is_datetime (utcnow w) \<and> is_datetime T \<and> utcnow w < T - minutes 5 \<longrightarrow>
      add_authentication \<lparr>access_token = tok, token_expires_at = Some T\<rparr> w True None =
        \<lparr>returned = Inr tok, state_after = \<lparr>access_token = tok, token_expires_at = Some T\<rparr>,
         refreshed = False\<rparr>) \<and>
   (returned (get_access_token (lwa c) (utcnow w) (utcnow_refresh w) (token_endpoint w) False) =
      Inr fetched \<and>
    fst (get_credentials cfg (aws_credentials c) (sts w)) = Inr creds \<longrightarrow>
      (let unsigned = \<lparr>req_method = upper m, req_url = urljoin ext (base_url cfg) path,
                       req_headers = dict_set (request_headers hs) ''x-amz-access-token'' fetched,
                       req_body = request_data ext data\<rparr>;
           signed = unsigned\<lparr>req_headers :=
                       sigv4_headers ext creds ''execute-api'' (aws_region cfg) unsigned\<rparr>;
           outgoing = add_query_parameters ext params signed
       in map_of (req_headers unsigned) ''x-amz-access-token'' = Some fetched \<and>
          fst (prepare_request ext cfg c w m path params data hs True None) = Inr outgoing \<and>
          lwa (snd (prepare_request ext cfg c w m path params data hs True None)) =
            state_after (get_access_token (lwa c) (utcnow w) (utcnow_refresh w)
              (token_endpoint w) False) \<and>
          (snd (acquire (limiter c) ep (bucket_created w) (limiter_clock w)) = Granted t0 \<longrightarrow>
             sent (request ext cfg c w m ep path params data hs True None) = Some outgoing \<and>
             response (request ext cfg c w m ep path params data hs True None) =
               Some (outcome (execute_with_retry (retry_attempts cfg)
                 (\<lambda>k. execute_request outgoing (transport_calls w k)) (jitter_samples w)))))) \<and>
   (returned (get_access_token (lwa c) (utcnow w) (utcnow_refresh w) (token_endpoint w) False) =
      Inl e \<longrightarrow>
      fst (prepare_request ext cfg c w m path params data hs True None) = Inl e)"
proof -
  have eq: "add_authentication st w True None =
      get_access_token st (utcnow w) (utcnow_refresh w) (token_endpoint w) False \<and>
    add_authentication st w True None = add_authentication st w False None \<and>
    prepare_request ext cfg c w m path params data hs True None =
      prepare_request ext cfg c w m path params data hs False None \<and>
    request ext cfg c w m ep path params data hs True None =
      request ext cfg c w m ep path params data hs False None"
    by (simp add: request_def prepare_request_def add_authentication_fallback)
  have cached: "truthy tok \<and> is_datetime (utcnow w) \<and> is_datetime T \<and> utcnow w < T - minutes 5 \<longrightarrow>
      add_authentication \<lparr>access_token = tok, token_expires_at = Some T\<rparr> w True None =
        \<lparr>returned = Inr tok, state_after = \<lparr>access_token = tok, token_expires_at = Some T\<rparr>,
         refreshed = False\<rparr>"
    by (simp add: add_authentication_fallback get_access_token_cached)
  have attached: "let unsigned = \<lparr>req_method = upper m, req_url = urljoin ext (base_url cfg) path,
                       req_headers = dict_set (request_headers hs) ''x-amz-access-token'' fetched,
                       req_body = request_data ext data\<rparr>;
           signed = unsigned\<lparr>req_headers :=
                       sigv4_headers ext creds ''execute-api'' (aws_region cfg) unsigned\<rparr>;
           outgoing = add_query_parameters ext params signed
       in map_of (req_headers unsigned) ''x-amz-access-token'' = Some fetched \<and>
          fst (prepare_request ext cfg c w m path params data hs True None) = Inr outgoing \<and>
          lwa (snd (prepare_request ext cfg c w m path params data hs True None)) =
            state_after (get_access_token (lwa c) (utcnow w) (utcnow_refresh w)
              (token_endpoint w) False) \<and>
          (snd (acquire (limiter c) ep (bucket_created w) (limiter_clock w)) = Granted t0 \<longrightarrow>
             sent (request ext cfg c w m ep path params data hs True None) = Some outgoing \<and>
             response (request ext cfg c w m ep path params data hs True None) =
               Some (outcome (execute_with_retry (retry_attempts cfg)
                 (\<lambda>k. execute_request outgoing (transport_calls w k)) (jitter_samples w))))"
    if h: "returned (get_access_token (lwa c) (utcnow w) (utcnow_refresh w) (token_endpoint w) False) =
        Inr fetched \<and>
      fst (get_credentials cfg (aws_credentials c) (sts w)) = Inr creds"
  proof -
    let ?c = "c\<lparr>limiter := fst (acquire (limiter c) ep (bucket_created w) (limiter_clock w))\<rparr>"
    have h1: "returned (get_access_token (lwa c) (utcnow w) (utcnow_refresh w) (token_endpoint w) False) =
        Inr fetched"
      and h2: "fst (get_credentials cfg (aws_credentials c) (sts w)) = Inr creds"
      using h by simp_all
    have h1': "returned (get_access_token (lwa ?c) (utcnow w) (utcnow_refresh w) (token_endpoint w) False) =
        Inr fetched"
      and h2': "fst (get_credentials cfg (aws_credentials ?c) (sts w)) = Inr creds"
      using h by simp_all
    note p = prepare_request_fallback [OF h1 h2, of ext m path params data hs]
    note p' = prepare_request_fallback(1) [OF h1' h2', of ext m path params data hs]
    note r = request_granted [OF _ p', of t0]
    show ?thesis
      using p r by (simp add: Let_def map_of_dict_set)
  qed
  have raises: "returned (get_access_token (lwa c) (utcnow w) (utcnow_refresh w) (token_endpoint w) False) =
      Inl e \<longrightarrow>
      fst (prepare_request ext cfg c w m path params data hs True None) = Inl e"
    by (simp add: prepare_request_fallback_raises)
  show ?thesis
    using eq cached attached raises by blast
qed

theorem missing_rdt_falls_back_witness:
  "add_authentication \<lparr>access_token = PyStr ''Atza'', token_expires_at = Some (seconds 3600)\<rparr>
      sample_world True None =
     \<lparr>returned = Inr (PyStr ''Atza''),
      state_after = \<lparr>access_token = PyStr ''Atza'', token_expires_at = Some (seconds 3600)\<rparr>,
      refreshed = False\<rparr> \<and>
   request sample_externals sample_config sample_client sample_world ''get'' ''orders''
      ''/orders/v0/orders'' None None None True None =
   request sample_externals sample_config sample_client sample_world ''get'' ''orders''
      ''/orders/v0/orders'' None None None False None \<and>
   sent (request sample_externals sample_config sample_client stale_world ''get'' ''orders''
      ''/orders/v0/orders'' None None None True None) =
     Some \<lparr>req_method = ''GET'',
           req_url = ''https://sellingpartnerapi-eu.amazon.com/orders/v0/orders'',
           req_headers =
             [(''User-Agent'', PyStr ''amazon-sp-api-mcp/1.0.0''),
              (''Content-Type'', PyStr ''application/json''),
              (''x-amz-access-token'', PyStr ''Atzb''),
              (''Authorization'', PyStr
                 ''AWS4-HMAC-SHA256 ASIA/eu-west-1/execute-api GET https://sellingpartnerapi-eu.amazon.com/orders/v0/orders'')],
           req_body = None\<rparr> \<and>
   response (request sample_externals sample_config sample_client stale_world ''get'' ''orders''
      ''/orders/v0/orders'' None None None True None) = Some (Inr (PyDict []))"
proof -
  let ?creds = "\<lparr>access_key = ''ASIA'', secret_key = ''temp'', session_token = Some ''session''\<rparr>"
  have due: "truthy (PyStr ''Atza'') \<and> is_datetime (utcnow sample_world) \<and>
      is_datetime (seconds 3600) \<and> utcnow sample_world < seconds 3600 - minutes 5"
    by (simp add: sample_world_def seconds_def minutes_def is_datetime_def datetime_max_def)
  have fetched: "returned (get_access_token (lwa sample_client) (utcnow stale_world)
      (utcnow_refresh stale_world) (token_endpoint stale_world) False) = Inr (PyStr ''Atzb'')"
    by (simp add: sample_client_def stale_world_def sample_world_def get_access_token_def
        is_token_expired_def refresh_access_token_def timedelta_seconds_def datetime_add_def
        is_datetime_def datetime_max_def seconds_def minutes_def Let_def)
  have creds: "fst (get_credentials sample_config (aws_credentials sample_client) (sts stale_world)) =
      Inr ?creds"
    by (simp add: get_credentials_def sample_config_def sample_client_def stale_world_def
        sample_world_def)
  have granted: "snd (acquire (limiter sample_client) ''orders'' (bucket_created stale_world)
      (limiter_clock stale_world)) = Granted 1"
    by (simp add: acquire_def sample_client_def stale_world_def sample_world_def
        rate_limiter_init_def RATE_LIMITS_def new_bucket_def acquire_pass_def refill_def Let_def)
  note a = missing_rdt_falls_back
    [where tok = "PyStr ''Atza''" and T = "seconds 3600" and w = sample_world
       and st = "\<lparr>access_token = PyStr ''Atza'', token_expires_at = Some (seconds 3600)\<rparr>"
       and ext = sample_externals and cfg = sample_config and c = sample_client
       and m = "''get''" and ep = "''orders''" and path = "''/orders/v0/orders''"
       and params = None and data = None and hs = None]
  note b = missing_rdt_falls_back
    [where w = stale_world and ext = sample_externals and cfg = sample_config
       and c = sample_client and m = "''get''" and ep = "''orders''"
       and path = "''/orders/v0/orders''" and params = None and data = None and hs = None
       and fetched = "PyStr ''Atzb''" and creds = ?creds and ?t0.0 = 1]
  have 1: "add_authentication \<lparr>access_token = PyStr ''Atza'', token_expires_at = Some (seconds 3600)\<rparr>
        sample_world True None =
      \<lparr>returned = Inr (PyStr ''Atza''),
       state_after = \<lparr>access_token = PyStr ''Atza'', token_expires_at = Some (seconds 3600)\<rparr>,
       refreshed = False\<rparr>"
    using a due by blast
  have 2: "request sample_externals sample_config sample_client sample_world ''get'' ''orders''
        ''/orders/v0/orders'' None None None True None =
      request sample_externals sample_config sample_client sample_world ''get'' ''orders''
        ''/orders/v0/orders'' None None None False None"
    using a by blast
  let ?out = "\<lparr>req_method = ''GET'',
           req_url = ''https://sellingpartnerapi-eu.amazon.com/orders/v0/orders'',
           req_headers =
             [(''User-Agent'', PyStr ''amazon-sp-api-mcp/1.0.0''),
              (''Content-Type'', PyStr ''application/json''),
              (''x-amz-access-token'', PyStr ''Atzb''),
              (''Authorization'', PyStr
                 ''AWS4-HMAC-SHA256 ASIA/eu-west-1/execute-api GET https://sellingpartnerapi-eu.amazon.com/orders/v0/orders'')],
           req_body = None\<rparr>"
  have 3: "sent (request sample_externals sample_config sample_client stale_world ''get'' ''orders''
        ''/orders/v0/orders'' None None None True None) = Some ?out \<and>
      response (request sample_externals sample_config sample_client stale_world ''get'' ''orders''
        ''/orders/v0/orders'' None None None True None) =
      Some (outcome (execute_with_retry (retry_attempts sample_config)
        (\<lambda>k. execute_request ?out (transport_calls stale_world k)) (jitter_samples stale_world)))"
  proof -
    note b6 = b [THEN conjunct2, THEN conjunct2, THEN conjunct2, THEN conjunct2, THEN conjunct2,
      THEN conjunct1, rule_format, OF conjI [OF fetched creds], unfolded Let_def]
    note s = b6 [THEN conjunct2, THEN conjunct2, THEN conjunct2, rule_format, OF granted]
    have out: "add_query_parameters sample_externals None
        (\<lparr>req_method = upper ''get'',
          req_url = urljoin sample_externals (base_url sample_config) ''/orders/v0/orders'',
          req_headers = dict_set (request_headers None) ''x-amz-access-token'' (PyStr ''Atzb''),
          req_body = request_data sample_externals None\<rparr>
         \<lparr>req_headers :=
            sigv4_headers sample_externals ?creds ''execute-api'' (aws_region sample_config)
              \<lparr>req_method = upper ''get'',
               req_url = urljoin sample_externals (base_url sample_config) ''/orders/v0/orders'',
               req_headers = dict_set (request_headers None) ''x-amz-access-token'' (PyStr ''Atzb''),
               req_body = request_data sample_externals None\<rparr>\<rparr>) = ?out"
      by (simp add: upper_get sample_externals_def sample_config_def request_headers_def
          default_headers_def request_data_def add_query_parameters_def)
    show ?thesis
      using s by (simp only: out)
  qed
  have 4: "outcome (execute_with_retry (retry_attempts sample_config)
        (\<lambda>k. execute_request ?out (transport_calls stale_world k)) (jitter_samples stale_world)) =
      Inr (PyDict [])"
    by (simp add: execute_with_retry_def upt_0_4 sample_config_def stale_world_def sample_world_def
        execute_request_reply)
  show ?thesis
    using 1 2 3 4 by simp
qed

end
